theory Spec2Isabelle
  imports Main "HOL-Library.Word" "HOL-Library.Sublist"
begin

section \<open>JavaScript strings and values\<close>

text \<open>
  A JavaScript string is a sequence of UTF-16 code units; \<open>text[i]\<close> is the string made
  of the single code unit at index \<open>i\<close>. A value that may be \<open>null\<close> or
  \<open>undefined\<close> is an option (\<open>None\<close>). Objects used as dictionaries are finite
  maps over their own properties.
\<close>

type_synonym unit16 = "16 word"
type_synonym jsstring = "unit16 list"

definition js :: "string \<Rightarrow> jsstring" where
  "js s = map of_char s"

definition truthy :: "jsstring option \<Rightarrow> bool" where
  "truthy v = (case v of None \<Rightarrow> False | Some s \<Rightarrow> s \<noteq> [])"

text \<open>The operator \<open>a || b\<close> on strings and \<open>null\<close>.\<close>

definition orElse :: "jsstring option \<Rightarrow> jsstring option \<Rightarrow> jsstring option" where
  "orElse a b = (if truthy a then a else b)"

text \<open>
  The string a value is converted to as a property key (\<open>obj[value]\<close>) and in a template
  literal (\<open>${value}\<close>): \<open>stringOfNull\<close> where the absent value is \<open>null\<close>,
  \<open>stringOfUndefined\<close> where it is \<open>undefined\<close>.
\<close>

definition stringOfNull :: "jsstring option \<Rightarrow> jsstring" where
  "stringOfNull v = (case v of None \<Rightarrow> js ''null'' | Some s \<Rightarrow> s)"

definition stringOfUndefined :: "jsstring option \<Rightarrow> jsstring" where
  "stringOfUndefined v = (case v of None \<Rightarrow> js ''undefined'' | Some s \<Rightarrow> s)"

definition isHighSurrogate :: "unit16 \<Rightarrow> bool" where
  "isHighSurrogate c = (0xD800 \<le> unat c \<and> unat c \<le> 0xDBFF)"

definition isLowSurrogate :: "unit16 \<Rightarrow> bool" where
  "isLowSurrogate c = (0xDC00 \<le> unat c \<and> unat c \<le> 0xDFFF)"

text \<open>\<open>s.codePointAt(0)\<close>; \<open>None\<close> is \<open>undefined\<close> (the empty string).\<close>

fun codePointAt0 :: "jsstring \<Rightarrow> nat option" where
  "codePointAt0 [] = None"
| "codePointAt0 [a] = Some (unat a)"
| "codePointAt0 (a # b # r) =
     (if isHighSurrogate a \<and> isLowSurrogate b
      then Some (0x10000 + (unat a - 0xD800) * 0x400 + (unat b - 0xDC00))
      else Some (unat a))"

text \<open>The string iterator (\<open>for (const glyph of glyphs)\<close>): one string per code point.\<close>

fun codePoints :: "jsstring \<Rightarrow> jsstring list" where
  "codePoints [] = []"
| "codePoints [a] = [a] # []"
| "codePoints (a # b # r) =
     (if isHighSurrogate a \<and> isLowSurrogate b
      then [a, b] # codePoints r
      else [a] # codePoints (b # r))"

text \<open>
  The characters matched by \<open>\s\<close> in a regular expression and removed by
  \<open>String.prototype.trim\<close>: ECMAScript's WhiteSpace and LineTerminator.
\<close>

definition isWhiteSpace :: "unit16 \<Rightarrow> bool" where
  "isWhiteSpace c =
     (c \<in> {0x0009, 0x000A, 0x000B, 0x000C, 0x000D, 0x0020, 0x00A0, 0x1680,
            0x2028, 0x2029, 0x202F, 0x205F, 0x3000, 0xFEFF}
      \<or> (0x2000 \<le> unat c \<and> unat c \<le> 0x200A))"

definition trim :: "jsstring \<Rightarrow> jsstring" where
  "trim s = rev (dropWhile isWhiteSpace (rev (dropWhile isWhiteSpace s)))"

text \<open>
  The test \<open>/[\s\p{P}]/u.test(char)\<close>. The table of the Unicode general category P
  belongs to the JavaScript engine, not to the repository: it is the parameter
  \<open>punct\<close> of the model.
\<close>

definition isWhitespaceOrPunctuation :: "(unit16 \<Rightarrow> bool) \<Rightarrow> unit16 \<Rightarrow> bool" where
  "isWhitespaceOrPunctuation punct c = (isWhiteSpace c \<or> punct c)"

text \<open>
  The general category P of the Unicode Character Database (version 14) on the Basic
  Multilingual Plane, as inclusive code point ranges. A lone surrogate has category Cs.
\<close>

definition punctuationRanges :: "(nat \<times> nat) list" where
  "punctuationRanges = [
    (0x0021, 0x0023), (0x0025, 0x002A), (0x002C, 0x002F), (0x003A, 0x003B), (0x003F, 0x0040),
    (0x005B, 0x005D), (0x005F, 0x005F), (0x007B, 0x007B), (0x007D, 0x007D), (0x00A1, 0x00A1),
    (0x00A7, 0x00A7), (0x00AB, 0x00AB), (0x00B6, 0x00B7), (0x00BB, 0x00BB), (0x00BF, 0x00BF),
    (0x037E, 0x037E), (0x0387, 0x0387), (0x055A, 0x055F), (0x0589, 0x058A), (0x05BE, 0x05BE),
    (0x05C0, 0x05C0), (0x05C3, 0x05C3), (0x05C6, 0x05C6), (0x05F3, 0x05F4), (0x0609, 0x060A),
    (0x060C, 0x060D), (0x061B, 0x061B), (0x061D, 0x061F), (0x066A, 0x066D), (0x06D4, 0x06D4),
    (0x0700, 0x070D), (0x07F7, 0x07F9), (0x0830, 0x083E), (0x085E, 0x085E), (0x0964, 0x0965),
    (0x0970, 0x0970), (0x09FD, 0x09FD), (0x0A76, 0x0A76), (0x0AF0, 0x0AF0), (0x0C77, 0x0C77),
    (0x0C84, 0x0C84), (0x0DF4, 0x0DF4), (0x0E4F, 0x0E4F), (0x0E5A, 0x0E5B), (0x0F04, 0x0F12),
    (0x0F14, 0x0F14), (0x0F3A, 0x0F3D), (0x0F85, 0x0F85), (0x0FD0, 0x0FD4), (0x0FD9, 0x0FDA),
    (0x104A, 0x104F), (0x10FB, 0x10FB), (0x1360, 0x1368), (0x1400, 0x1400), (0x166E, 0x166E),
    (0x169B, 0x169C), (0x16EB, 0x16ED), (0x1735, 0x1736), (0x17D4, 0x17D6), (0x17D8, 0x17DA),
    (0x1800, 0x180A), (0x1944, 0x1945), (0x1A1E, 0x1A1F), (0x1AA0, 0x1AA6), (0x1AA8, 0x1AAD),
    (0x1B5A, 0x1B60), (0x1B7D, 0x1B7E), (0x1BFC, 0x1BFF), (0x1C3B, 0x1C3F), (0x1C7E, 0x1C7F),
    (0x1CC0, 0x1CC7), (0x1CD3, 0x1CD3), (0x2010, 0x2027), (0x2030, 0x2043), (0x2045, 0x2051),
    (0x2053, 0x205E), (0x207D, 0x207E), (0x208D, 0x208E), (0x2308, 0x230B), (0x2329, 0x232A),
    (0x2768, 0x2775), (0x27C5, 0x27C6), (0x27E6, 0x27EF), (0x2983, 0x2998), (0x29D8, 0x29DB),
    (0x29FC, 0x29FD), (0x2CF9, 0x2CFC), (0x2CFE, 0x2CFF), (0x2D70, 0x2D70), (0x2E00, 0x2E2E),
    (0x2E30, 0x2E4F), (0x2E52, 0x2E5D), (0x3001, 0x3003), (0x3008, 0x3011), (0x3014, 0x301F),
    (0x3030, 0x3030), (0x303D, 0x303D), (0x30A0, 0x30A0), (0x30FB, 0x30FB), (0xA4FE, 0xA4FF),
    (0xA60D, 0xA60F), (0xA673, 0xA673), (0xA67E, 0xA67E), (0xA6F2, 0xA6F7), (0xA874, 0xA877),
    (0xA8CE, 0xA8CF), (0xA8F8, 0xA8FA), (0xA8FC, 0xA8FC), (0xA92E, 0xA92F), (0xA95F, 0xA95F),
    (0xA9C1, 0xA9CD), (0xA9DE, 0xA9DF), (0xAA5C, 0xAA5F), (0xAADE, 0xAADF), (0xAAF0, 0xAAF1),
    (0xABEB, 0xABEB), (0xFD3E, 0xFD3F), (0xFE10, 0xFE19), (0xFE30, 0xFE52), (0xFE54, 0xFE61),
    (0xFE63, 0xFE63), (0xFE68, 0xFE68), (0xFE6A, 0xFE6B), (0xFF01, 0xFF03), (0xFF05, 0xFF0A),
    (0xFF0C, 0xFF0F), (0xFF1A, 0xFF1B), (0xFF1F, 0xFF20), (0xFF3B, 0xFF3D), (0xFF3F, 0xFF3F),
    (0xFF5B, 0xFF5B), (0xFF5D, 0xFF5D), (0xFF5F, 0xFF65)]"

fun inRanges :: "nat \<Rightarrow> (nat \<times> nat) list \<Rightarrow> bool" where
  "inRanges n [] = False"
| "inRanges n ((start, end) # rs) = (if start \<le> n \<and> n \<le> end then True else inRanges n rs)"

definition unicodePunctuation :: "unit16 \<Rightarrow> bool" where
  "unicodePunctuation c = inRanges (unat c) punctuationRanges"

section \<open>Configuration and tables of the class Multilingual\<close>

record cssClassesConfig =
  wrapper :: "jsstring option"
  useShortNames :: bool
  scriptSpecific :: "jsstring \<rightharpoonup> jsstring"

text \<open>
  \<open>glyphOverrides\<close> is the list \<open>Object.entries\<close> gives (a string of glyphs and a
  script name per entry), since the constructor iterates it in that order.
\<close>

record config =
  preserveWhitespace :: bool
  minSegmentLength :: int
  glyphOverrides :: "(jsstring \<times> jsstring) list"
  languageOverrides :: "jsstring \<rightharpoonup> jsstring"
  cssClasses :: cssClassesConfig

definition DEFAULT_CONFIG :: config where
  "DEFAULT_CONFIG = \<lparr>
     preserveWhitespace = True,
     minSegmentLength = 1,
     glyphOverrides = [],
     languageOverrides = Map.empty,
     cssClasses = \<lparr> wrapper = Some [], useShortNames = True, scriptSpecific = Map.empty \<rparr> \<rparr>"

definition pairedPunctuation :: "unit16 \<rightharpoonup> unit16" where
  "pairedPunctuation = map_of [
     (0x0028, 0x0029), (0x005B, 0x005D), (0x007B, 0x007D), (0x0022, 0x0022), (0x0027, 0x0027),
     (0x0022, 0x0022), (0x0027, 0x0027), (0x00AB, 0x00BB), (0x2039, 0x203A), (0x300C, 0x300D),
     (0x300E, 0x300F), (0x3008, 0x3009), (0x300A, 0x300B)]"

text \<open>The reverse mapping; every closing glyph has one opening glyph.\<close>

definition closingToOpening :: "unit16 \<rightharpoonup> unit16" where
  "closingToOpening = map_of [
     (0x0029, 0x0028), (0x005D, 0x005B), (0x007D, 0x007B), (0x0022, 0x0022), (0x0027, 0x0027),
     (0x00BB, 0x00AB), (0x203A, 0x2039), (0x300D, 0x300C), (0x300F, 0x300E), (0x3009, 0x3008),
     (0x300B, 0x300A)]"

definition scriptRanges :: "(jsstring \<times> (nat \<times> nat) list) list" where
  "scriptRanges = [
     (js ''latin'', [(0x0041, 0x005A), (0x0061, 0x007A), (0x00C0, 0x00FF), (0x0100, 0x017F),
                     (0x0180, 0x024F), (0x1E00, 0x1EFF)]),
     (js ''korean'', [(0xAC00, 0xD7AF), (0x1100, 0x11FF), (0x3130, 0x318F), (0xA960, 0xA97F),
                      (0xD7B0, 0xD7FF)]),
     (js ''japanese'', [(0x3040, 0x309F), (0x30A0, 0x30FF), (0x31F0, 0x31FF)]),
     (js ''chinese'', [(0x4E00, 0x9FFF), (0x3400, 0x4DBF), (0x20000, 0x2A6DF), (0x2A700, 0x2B73F),
                       (0x2B740, 0x2B81F), (0x2B820, 0x2CEAF), (0x2CEB0, 0x2EBEF),
                       (0xF900, 0xFAFF)]),
     (js ''arabic'', [(0x0600, 0x06FF), (0x0750, 0x077F), (0x08A0, 0x08FF), (0xFB50, 0xFDFF),
                      (0xFE70, 0xFEFF)]),
     (js ''cyrillic'', [(0x0400, 0x04FF), (0x0500, 0x052F), (0x2DE0, 0x2DFF), (0xA640, 0xA69F)]),
     (js ''greek'', [(0x0370, 0x03FF), (0x1F00, 0x1FFF)]),
     (js ''hebrew'', [(0x0590, 0x05FF), (0xFB1D, 0xFB4F)]),
     (js ''thai'', [(0x0E00, 0x0E7F)]),
     (js ''devanagari'', [(0x0900, 0x097F)])]"

definition scriptToLang :: "config \<Rightarrow> jsstring \<rightharpoonup> jsstring" where
  "scriptToLang cfg = map_of [
     (js ''latin'', js ''en''), (js ''korean'', js ''ko''), (js ''japanese'', js ''ja''),
     (js ''chinese'', js ''zh''), (js ''arabic'', js ''ar''), (js ''cyrillic'', js ''ru''),
     (js ''greek'', js ''el''), (js ''hebrew'', js ''he''), (js ''thai'', js ''th''),
     (js ''devanagari'', js ''hi'')] ++ languageOverrides cfg"

definition scriptToShortClass :: "jsstring \<rightharpoonup> jsstring" where
  "scriptToShortClass = map_of [
     (js ''latin'', js ''ml-en''), (js ''korean'', js ''ml-ko''), (js ''japanese'', js ''ml-ja''),
     (js ''chinese'', js ''ml-zh''), (js ''arabic'', js ''ml-ar''), (js ''cyrillic'', js ''ml-ru''),
     (js ''greek'', js ''ml-el''), (js ''hebrew'', js ''ml-he''), (js ''thai'', js ''ml-th''),
     (js ''devanagari'', js ''ml-hi'')]"

text \<open>The glyph override map the constructor builds: a later assignment replaces an earlier one.\<close>

definition glyphOverrideMap :: "config \<Rightarrow> jsstring \<rightharpoonup> jsstring" where
  "glyphOverrideMap cfg =
     foldl (\<lambda>m (glyphs, script). foldl (\<lambda>m glyph. m(glyph \<mapsto> script)) m (codePoints glyphs))
       Map.empty (glyphOverrides cfg)"

section \<open>detectScript\<close>

fun scanRanges :: "nat option \<Rightarrow> (jsstring \<times> (nat \<times> nat) list) list \<Rightarrow> jsstring option" where
  "scanRanges charCode [] = None"
| "scanRanges charCode ((script, ranges) # rest) =
     (case charCode of
        None \<Rightarrow> scanRanges charCode rest
      | Some n \<Rightarrow> if inRanges n ranges then Some script else scanRanges charCode rest)"

definition detectScript :: "config \<Rightarrow> jsstring \<Rightarrow> jsstring" where
  "detectScript cfg char =
     (if truthy (glyphOverrideMap cfg char) then the (glyphOverrideMap cfg char)
      else case scanRanges (codePointAt0 char) scriptRanges of
             Some script \<Rightarrow> script
           | None \<Rightarrow> js ''latin'')"

section \<open>segmentText\<close>

record segment =
  seg_text :: jsstring
  seg_script :: "jsstring option"
  seg_lang :: "jsstring option"

record pairEntry =
  entry_char :: unit16
  entry_script :: "jsstring option"
  entry_index :: nat

text \<open>The local variables of \<open>segmentText\<close>.\<close>

record state =
  segments :: "segment list"
  currentSegment :: jsstring
  currentScript :: "jsstring option"
  lastNonWhitespaceScript :: "jsstring option"
  pairStack :: "pairEntry list"

definition init :: state where
  "init = \<lparr> segments = [], currentSegment = [], currentScript = None,
            lastNonWhitespaceScript = None, pairStack = [] \<rparr>"

text \<open>
  The emission filter
  \<open>currentSegment.trim() && currentSegment.trim().length >= this.config.minSegmentLength\<close>.
\<close>

definition passesFilter :: "config \<Rightarrow> jsstring \<Rightarrow> bool" where
  "passesFilter cfg s = (trim s \<noteq> [] \<and> minSegmentLength cfg \<le> int (length (trim s)))"

text \<open>The guarded \<open>segments.push({text, script, lang})\<close>, the same at its three sites.\<close>

definition pushCurrent :: "config \<Rightarrow> state \<Rightarrow> segment list" where
  "pushCurrent cfg st =
     (if passesFilter cfg (currentSegment st)
      then segments st @ [\<lparr> seg_text = currentSegment st, seg_script = currentScript st,
                            seg_lang = scriptToLang cfg (stringOfNull (currentScript st)) \<rparr>]
      else segments st)"

text \<open>\<open>currentScript || lastNonWhitespaceScript || 'latin'\<close>\<close>

definition contextScript :: "state \<Rightarrow> jsstring option" where
  "contextScript st =
     orElse (orElse (currentScript st) (lastNonWhitespaceScript st)) (Some (js ''latin''))"

text \<open>
  The search \<open>for (let j = pairStack.length - 1; j >= 0; j--)\<close> for the opening glyph:
  \<open>findOpening stack openingChar n\<close> looks at the indices below \<open>n\<close>, from the top down,
  and gives the index of the first match.
\<close>

fun findOpening :: "pairEntry list \<Rightarrow> unit16 \<Rightarrow> nat \<Rightarrow> nat option" where
  "findOpening stack openingChar 0 = None"
| "findOpening stack openingChar (Suc j) =
     (if entry_char (stack ! j) = openingChar then Some j
      else findOpening stack openingChar j)"

text \<open>
  The look-ahead after a closing glyph: \<open>shouldEndSegment\<close> is set when the next character
  of the rest of the text that is neither white space nor punctuation has another script.
\<close>

fun shouldEndSegment :: "(unit16 \<Rightarrow> bool) \<Rightarrow> config \<Rightarrow> jsstring option \<Rightarrow> jsstring \<Rightarrow> bool" where
  "shouldEndSegment punct cfg charScript [] = False"
| "shouldEndSegment punct cfg charScript (nextChar # rest) =
     (if \<not> isWhitespaceOrPunctuation punct nextChar
      then Some (detectScript cfg [nextChar]) \<noteq> charScript
      else shouldEndSegment punct cfg charScript rest)"

text \<open>
  The branch of the loop body for a white space or punctuation character when
  \<open>preserveWhitespace\<close> is set. It first resolves \<open>charScript\<close> (opening glyph, closing
  glyph, or other), then appends the character, then looks ahead.
\<close>

text \<open>An opening glyph takes the script of the context and is pushed on the stack.\<close>

definition openingGlyph :: "nat \<Rightarrow> unit16 \<Rightarrow> state \<Rightarrow> jsstring option \<times> state" where
  "openingGlyph i char st =
     (let charScript = contextScript st
      in (charScript,
          st\<lparr>pairStack := pairStack st @
               [\<lparr> entry_char = char, entry_script = charScript, entry_index = i \<rparr>]\<rparr>))"

text \<open>The matching entry, nearest the top, gives its script and is spliced out of the stack.\<close>

definition popMatching :: "pairEntry list \<Rightarrow> unit16 \<Rightarrow> jsstring option \<times> pairEntry list" where
  "popMatching stack openingChar =
     (case findOpening stack openingChar (length stack) of
        Some j \<Rightarrow> (entry_script (stack ! j), take j stack @ drop (Suc j) stack)
      | None \<Rightarrow> (None, stack))"

text \<open>
  A closing glyph takes the script of its opening glyph, or of the context when none is on
  the stack; when that script differs from the open segment's, the segment is closed out and
  a new one starts with the glyph's script.
\<close>

definition closingGlyph :: "config \<Rightarrow> unit16 \<Rightarrow> state \<Rightarrow> jsstring option \<times> state" where
  "closingGlyph cfg openingChar st =
     (let (matched, stack) = popMatching (pairStack st) openingChar;
          st1 = st\<lparr>pairStack := stack\<rparr>;
          charScript = (if \<not> truthy matched then contextScript st1 else matched)
      in if truthy (currentScript st1) \<and> currentScript st1 \<noteq> charScript
         then (charScript,
               st1\<lparr>segments := pushCurrent cfg st1, currentSegment := [],
                   currentScript := charScript\<rparr>)
         else (charScript, st1))"

definition resolvePunctuation :: "config \<Rightarrow> nat \<Rightarrow> unit16 \<Rightarrow> state \<Rightarrow> jsstring option \<times> state" where
  "resolvePunctuation cfg i char st =
     (if pairedPunctuation char \<noteq> None then openingGlyph i char st
      else case closingToOpening char of
        Some openingChar \<Rightarrow> closingGlyph cfg openingChar st
      | None \<Rightarrow> (orElse (currentScript st) (lastNonWhitespaceScript st), st))"

definition punctuationStep ::
  "(unit16 \<Rightarrow> bool) \<Rightarrow> config \<Rightarrow> nat \<Rightarrow> unit16 \<Rightarrow> jsstring \<Rightarrow> state \<Rightarrow> state" where
  "punctuationStep punct cfg i char rest st =
     (let (charScript, st1) = resolvePunctuation cfg i char st;
          st2 = (if currentScript st1 = None \<and> truthy charScript
                 then st1\<lparr>currentScript := charScript\<rparr> else st1);
          st3 = st2\<lparr>currentSegment := currentSegment st2 @ [char]\<rparr>
      in if closingToOpening char \<noteq> None \<and> charScript \<noteq> lastNonWhitespaceScript st3
            \<and> shouldEndSegment punct cfg charScript rest
         then st3\<lparr>segments := pushCurrent cfg st3, currentSegment := [], currentScript := None\<rparr>
         else st3)"

text \<open>The branch for every other character: classify it and compare with the open segment.\<close>

definition scriptStep :: "config \<Rightarrow> unit16 \<Rightarrow> state \<Rightarrow> state" where
  "scriptStep cfg char st =
     (let charScript = detectScript cfg [char];
          st1 = st\<lparr>lastNonWhitespaceScript := Some charScript\<rparr>
      in if currentScript st1 = None
         then st1\<lparr>currentScript := Some charScript, currentSegment := currentSegment st1 @ [char]\<rparr>
         else if currentScript st1 = Some charScript
         then st1\<lparr>currentSegment := currentSegment st1 @ [char]\<rparr>
         else st1\<lparr>segments := pushCurrent cfg st1, currentSegment := [char],
                  currentScript := Some charScript\<rparr>)"

text \<open>One iteration of the loop at index \<open>i\<close>; \<open>rest\<close> is the text after index \<open>i\<close>.\<close>

definition step :: "(unit16 \<Rightarrow> bool) \<Rightarrow> config \<Rightarrow> nat \<Rightarrow> unit16 \<Rightarrow> jsstring \<Rightarrow> state \<Rightarrow> state" where
  "step punct cfg i char rest st =
     (if preserveWhitespace cfg \<and> isWhitespaceOrPunctuation punct char
      then punctuationStep punct cfg i char rest st
      else scriptStep cfg char st)"

fun loop :: "(unit16 \<Rightarrow> bool) \<Rightarrow> config \<Rightarrow> nat \<Rightarrow> jsstring \<Rightarrow> state \<Rightarrow> state" where
  "loop punct cfg i [] st = st"
| "loop punct cfg i (char # rest) st = loop punct cfg (Suc i) rest (step punct cfg i char rest st)"

definition segmentText :: "(unit16 \<Rightarrow> bool) \<Rightarrow> config \<Rightarrow> jsstring \<Rightarrow> segment list" where
  "segmentText punct cfg text = pushCurrent cfg (loop punct cfg 0 text init)"

section \<open>wrapSegments\<close>

text \<open>The class list of a span: the wrapper class, the short class name, the custom class.\<close>

definition cssClass :: "config \<Rightarrow> segment \<Rightarrow> jsstring" where
  "cssClass cfg segment =
     (let cssClass0 = (case orElse (wrapper (cssClasses cfg)) (Some []) of
                         Some w \<Rightarrow> w | None \<Rightarrow> []);
          shortName = scriptToShortClass (stringOfNull (seg_script segment));
          cssClass1 = (if useShortNames (cssClasses cfg) \<and> truthy shortName
                       then cssClass0 @ (if cssClass0 \<noteq> [] then js '' '' else []) @ the shortName
                       else cssClass0);
          custom = scriptSpecific (cssClasses cfg) (stringOfNull (seg_script segment));
          cssClass2 = (if truthy custom
                       then cssClass1 @ (if cssClass1 \<noteq> [] then js '' '' else []) @ the custom
                       else cssClass1)
      in cssClass2)"

definition renderSegment :: "config \<Rightarrow> segment \<Rightarrow> jsstring" where
  \<open>renderSegment cfg segment =
     (let trimmedText = trim (seg_text segment)
      in if trimmedText = [] then seg_text segment
         else let classAttr = (if cssClass cfg segment \<noteq> []
                               then js '' class="'' @ cssClass cfg segment @ js ''"''
                               else [])
              in js ''<span lang="'' @ stringOfUndefined (seg_lang segment) @
                 js ''" data-script="'' @ stringOfNull (seg_script segment) @ js ''"'' @
                 classAttr @ js ''>'' @ seg_text segment @ js ''</span>'')\<close>

text \<open>\<open>Array.prototype.join\<close> with a separator.\<close>

fun join :: "jsstring \<Rightarrow> jsstring list \<Rightarrow> jsstring" where
  "join sep [] = []"
| "join sep [x] = x"
| "join sep (x # y # ys) = x @ sep @ join sep (y # ys)"

definition wrapSegments :: "config \<Rightarrow> segment list \<Rightarrow> jsstring" where
  "wrapSegments cfg segs = join [] (map (renderSegment cfg) segs)"

section \<open>Inputs of the scenarios\<close>

text \<open>The text \<open>(XY)\<close> with the Hangul syllables U+D55C U+AE00 for \<open>XY\<close>.\<close>

definition parenthesizedHangul :: jsstring where
  "parenthesizedHangul = js ''('' @ [0xD55C, 0xAE00] @ js '')''"

text \<open>The text \<open>price: $5 (XYZ)\<close> with the Hangul syllables U+C624 U+CC9C U+C6D0 for \<open>XYZ\<close>.\<close>

definition priceText :: jsstring where
  "priceText = js ''price: $5 ('' @ [0xC624, 0xCC9C, 0xC6D0] @ js '')''"

text \<open>
  The text \<open>Hello VWXYZ world\<close> with the Hangul syllables U+C548 U+B155 U+D558 U+C138
  U+C694 for \<open>VWXYZ\<close>.
\<close>

definition helloText :: jsstring where
  "helloText = js ''Hello '' @ [0xC548, 0xB155, 0xD558, 0xC138, 0xC694] @ js '' world''"

section \<open>Invariants of the loop\<close>

text \<open>
  The runs closed out so far, whether or not the filter let them through, followed by
  the open segment, are the consumed part of the text; the emitted segments are the runs
  that pass the filter.
\<close>

definition closedRuns :: "config \<Rightarrow> state \<Rightarrow> jsstring list \<Rightarrow> jsstring \<Rightarrow> bool" where
  "closedRuns cfg st runs consumed \<longleftrightarrow>
     concat runs @ currentSegment st = consumed \<and>
     map seg_text (segments st) = filter (passesFilter cfg) runs"

text \<open>
  Every character of a segment that went through \<open>detectScript\<close> (it is not a white space
  or punctuation character folded in) has the script of the segment.
\<close>

definition scriptConsistent ::
  "(unit16 \<Rightarrow> bool) \<Rightarrow> config \<Rightarrow> jsstring option \<Rightarrow> jsstring \<Rightarrow> bool" where
  "scriptConsistent punct cfg script chars \<longleftrightarrow>
     (\<forall>c\<in>set chars. \<not> (preserveWhitespace cfg \<and> isWhitespaceOrPunctuation punct c) \<longrightarrow>
        script = Some (detectScript cfg [c]))"

definition consistentState :: "(unit16 \<Rightarrow> bool) \<Rightarrow> config \<Rightarrow> state \<Rightarrow> bool" where
  "consistentState punct cfg st \<longleftrightarrow>
     scriptConsistent punct cfg (currentScript st) (currentSegment st) \<and>
     (\<forall>seg\<in>set (segments st). scriptConsistent punct cfg (seg_script seg) (seg_text seg))"


definition isSurrogate :: "unit16 \<Rightarrow> bool" where
  "isSurrogate c = (isHighSurrogate c \<or> isLowSurrogate c)"

text \<open>
  The lookup order in the words of the specification: the script of the first entry of the
  range table, in its order, one of whose inclusive ranges holds the code point.
\<close>

definition firstMatchingScript :: "nat \<Rightarrow> jsstring option" where
  "firstMatchingScript cp =
     map_option fst
       (find (\<lambda>(script, ranges). \<exists>(start, end)\<in>set ranges. start \<le> cp \<and> cp \<le> end) scriptRanges)"

section \<open>Lemmas\<close>


lemma unat_of_char: "unat (of_char c :: 16 word) = of_char c"
proof -
  have lt: "(of_char c :: nat) < 65536"
    by (rule less_trans [OF nat_of_char_less_256]) simp
  have "unat (of_nat (of_char c) :: 16 word) = (of_char c :: nat) mod 65536"
    by (simp add: unat_of_nat)
  with lt show ?thesis by (simp add: of_nat_of_char)
qed

lemma of_char_word_inj: "(of_char a :: 16 word) = of_char b \<longleftrightarrow> a = b"
proof
  assume "(of_char a :: 16 word) = of_char b"
  then have "unat (of_char a :: 16 word) = unat (of_char b :: 16 word)" by simp
  then show "a = b" by (simp add: unat_of_char)
qed simp

lemma js_eq_iff [simp]: "js a = js b \<longleftrightarrow> a = b"
  unfolding js_def by (rule inj_map_eq_map) (simp add: inj_on_def of_char_word_inj)

lemma js_Nil [simp]: "js a = [] \<longleftrightarrow> a = []" "[] = js a \<longleftrightarrow> a = []"
  by (auto simp: js_def)



subsection \<open>Trimming\<close>

lemma dropWhile_all_iff: "(\<forall>x\<in>set (dropWhile P xs). P x) \<longleftrightarrow> (\<forall>x\<in>set xs. P x)"
  by (induction xs) auto

lemma trim_eq_Nil_iff: "trim s = [] \<longleftrightarrow> (\<forall>c\<in>set s. isWhiteSpace c)"
  by (simp add: trim_def dropWhile_eq_Nil_conv dropWhile_all_iff)

lemma dropWhile_middle:
  assumes "\<not> (\<forall>x\<in>set r. P x)"
  shows "\<exists>p. dropWhile P (a @ r @ b) = p @ dropWhile P r @ b"
proof (cases "\<forall>x\<in>set a. P x")
  case True
  from assms obtain x where "x \<in> set r" "\<not> P x" by blast
  then have "dropWhile P (r @ b) = dropWhile P r @ b" by (rule dropWhile_append1)
  moreover from True have "dropWhile P (a @ (r @ b)) = dropWhile P (r @ b)"
    by (intro dropWhile_append2) blast
  ultimately have "dropWhile P (a @ r @ b) = [] @ dropWhile P r @ b" by simp
  then show ?thesis by blast
next
  case False
  then obtain x where "x \<in> set a" "\<not> P x" by blast
  then have "dropWhile P (a @ r @ b) = dropWhile P a @ r @ b" by (rule dropWhile_append1)
  also have "\<dots> = (dropWhile P a @ takeWhile P r) @ dropWhile P r @ b"
    by simp
  finally show ?thesis by blast
qed

lemma length_trim_middle: "length (trim r) \<le> length (trim (a @ r @ b))"
proof (cases "\<forall>c\<in>set r. isWhiteSpace c")
  case True
  then show ?thesis by (simp add: trim_eq_Nil_iff [THEN iffD2])
next
  case False
  let ?D = "dropWhile isWhiteSpace r"
  from dropWhile_middle [where P = isWhiteSpace and a = a and b = b, OF False]
  obtain p where p: "dropWhile isWhiteSpace (a @ r @ b) = p @ ?D @ b" ..
  from False have "\<not> (\<forall>x\<in>set (rev ?D). isWhiteSpace x)"
    by (simp add: dropWhile_all_iff)
  from dropWhile_middle [where P = isWhiteSpace and a = "rev b" and b = "rev p", OF this]
  obtain q where q:
    "dropWhile isWhiteSpace (rev b @ rev ?D @ rev p) = q @ dropWhile isWhiteSpace (rev ?D) @ rev p" ..
  have e1: "rev (dropWhile isWhiteSpace (a @ r @ b)) = rev b @ rev ?D @ rev p"
    by (simp only: p rev_append append_assoc)
  have "trim (a @ r @ b) = rev (dropWhile isWhiteSpace (rev b @ rev ?D @ rev p))"
    by (simp only: trim_def e1)
  also have "\<dots> = rev (q @ dropWhile isWhiteSpace (rev ?D) @ rev p)"
    by (simp only: q)
  finally have "length (trim (a @ r @ b)) =
      length q + length (dropWhile isWhiteSpace (rev ?D)) + length p"
    by simp
  moreover have "length (trim r) = length (dropWhile isWhiteSpace (rev ?D))"
    by (simp add: trim_def)
  ultimately show ?thesis by simp
qed

subsection \<open>Closed-out runs\<close>

lemma closedRuns_append:
  assumes "closedRuns cfg st runs w" "segments st' = segments st"
    "currentSegment st' = currentSegment st @ [c]"
  shows "closedRuns cfg st' runs (w @ [c])"
  using assms by (auto simp: closedRuns_def)

lemma closedRuns_close:
  assumes "closedRuns cfg st runs w" "segments st' = pushCurrent cfg st" "currentSegment st' = []"
  shows "closedRuns cfg st' (runs @ [currentSegment st]) w"
  using assms by (auto simp: closedRuns_def pushCurrent_def)

lemma pushCurrent_pairStack [simp]: "pushCurrent cfg (st\<lparr>pairStack := x\<rparr>) = pushCurrent cfg st"
  by (simp add: pushCurrent_def)

lemma pushCurrent_lastNonWhitespaceScript [simp]:
  "pushCurrent cfg (st\<lparr>lastNonWhitespaceScript := x\<rparr>) = pushCurrent cfg st"
  by (simp add: pushCurrent_def)

lemma closingGlyph_shape:
  "(segments (snd (closingGlyph cfg oc st)) = segments st \<and>
    currentSegment (snd (closingGlyph cfg oc st)) = currentSegment st) \<or>
   (segments (snd (closingGlyph cfg oc st)) = pushCurrent cfg st \<and>
    currentSegment (snd (closingGlyph cfg oc st)) = [])"
  by (simp add: closingGlyph_def Let_def split: prod.split)

lemma resolvePunctuation_shape:
  assumes "resolvePunctuation cfg i c st = (cs, st1)"
  shows "(segments st1 = segments st \<and> currentSegment st1 = currentSegment st) \<or>
         (segments st1 = pushCurrent cfg st \<and> currentSegment st1 = [])"
proof -
  have "(segments (snd (resolvePunctuation cfg i c st)) = segments st \<and>
    currentSegment (snd (resolvePunctuation cfg i c st)) = currentSegment st) \<or>
   (segments (snd (resolvePunctuation cfg i c st)) = pushCurrent cfg st \<and>
    currentSegment (snd (resolvePunctuation cfg i c st)) = [])"
    using closingGlyph_shape [of cfg _ st]
    by (simp add: resolvePunctuation_def openingGlyph_def Let_def split: option.split)
  with assms show ?thesis by simp
qed

lemma closedRuns_resolvePunctuation:
  assumes "closedRuns cfg st runs w" "resolvePunctuation cfg i c st = (cs, st1)"
  shows "\<exists>runs'. closedRuns cfg st1 runs' w"
  using resolvePunctuation_shape [OF assms(2)]
proof
  assume "segments st1 = segments st \<and> currentSegment st1 = currentSegment st"
  with assms(1) have "closedRuns cfg st1 runs w" by (simp add: closedRuns_def)
  then show ?thesis by blast
next
  assume "segments st1 = pushCurrent cfg st \<and> currentSegment st1 = []"
  then have "closedRuns cfg st1 (runs @ [currentSegment st]) w"
    using closedRuns_close [OF assms(1), of st1] by simp
  then show ?thesis by blast
qed

lemma closedRuns_punctuationStep:
  assumes "closedRuns cfg st runs w"
  shows "\<exists>runs'. closedRuns cfg (punctuationStep punct cfg i c rest st) runs' (w @ [c])"
proof -
  obtain cs st1 where r: "resolvePunctuation cfg i c st = (cs, st1)" by force
  then obtain runs1 where r1: "closedRuns cfg st1 runs1 w"
    using closedRuns_resolvePunctuation [OF assms] by blast
  define st2 where "st2 = (if currentScript st1 = None \<and> truthy cs
                 then st1\<lparr>currentScript := cs\<rparr> else st1)"
  define st3 where "st3 = st2\<lparr>currentSegment := currentSegment st2 @ [c]\<rparr>"
  have r3: "closedRuns cfg st3 runs1 (w @ [c])"
    by (rule closedRuns_append [OF r1]) (simp_all add: st3_def st2_def)
  have "punctuationStep punct cfg i c rest st = st3 \<or>
        punctuationStep punct cfg i c rest st =
          st3\<lparr>segments := pushCurrent cfg st3, currentSegment := [], currentScript := None\<rparr>"
    by (simp add: punctuationStep_def r Let_def st3_def st2_def)
  then show ?thesis
  proof
    assume "punctuationStep punct cfg i c rest st = st3"
    with r3 show ?thesis by auto
  next
    assume e: "punctuationStep punct cfg i c rest st =
          st3\<lparr>segments := pushCurrent cfg st3, currentSegment := [], currentScript := None\<rparr>"
    have "closedRuns cfg (st3\<lparr>segments := pushCurrent cfg st3, currentSegment := [], currentScript := None\<rparr>)
            (runs1 @ [currentSegment st3]) (w @ [c])"
      by (rule closedRuns_close [OF r3]) simp_all
    with e show ?thesis by auto
  qed
qed

lemma closedRuns_scriptStep:
  assumes "closedRuns cfg st runs w"
  shows "\<exists>runs'. closedRuns cfg (scriptStep cfg c st) runs' (w @ [c])"
proof -
  let ?st1 = "st\<lparr>lastNonWhitespaceScript := Some (detectScript cfg [c])\<rparr>"
  have "closedRuns cfg ?st1 runs w" using assms by (simp add: closedRuns_def)
  have "(segments (scriptStep cfg c st) = segments st \<and>
         currentSegment (scriptStep cfg c st) = currentSegment st @ [c]) \<or>
        (segments (scriptStep cfg c st) = pushCurrent cfg st \<and>
         currentSegment (scriptStep cfg c st) = [c])"
    by (simp add: scriptStep_def Let_def)
  then show ?thesis
  proof
    assume "segments (scriptStep cfg c st) = segments st \<and>
         currentSegment (scriptStep cfg c st) = currentSegment st @ [c]"
    with assms have "closedRuns cfg (scriptStep cfg c st) runs (w @ [c])"
      by (simp add: closedRuns_def)
    then show ?thesis by blast
  next
    assume "segments (scriptStep cfg c st) = pushCurrent cfg st \<and>
         currentSegment (scriptStep cfg c st) = [c]"
    with assms have "closedRuns cfg (scriptStep cfg c st) (runs @ [currentSegment st]) (w @ [c])"
      by (auto simp: closedRuns_def pushCurrent_def)
    then show ?thesis by blast
  qed
qed

lemma closedRuns_step:
  assumes "closedRuns cfg st runs w"
  shows "\<exists>runs'. closedRuns cfg (step punct cfg i c rest st) runs' (w @ [c])"
  using closedRuns_punctuationStep [OF assms] closedRuns_scriptStep [OF assms]
  by (simp add: step_def)

lemma closedRuns_loop:
  assumes "closedRuns cfg st runs w"
  shows "\<exists>runs'. closedRuns cfg (loop punct cfg i input st) runs' (w @ input)"
  using assms
proof (induction input arbitrary: st runs w i)
  case Nil
  then show ?case by auto
next
  case (Cons c rest)
  from closedRuns_step [OF Cons.prems] obtain runs1 where
    "closedRuns cfg (step punct cfg i c rest st) runs1 (w @ [c])" by blast
  from Cons.IH [OF this] show ?case by simp
qed

lemma segmentText_runs:
  "\<exists>runs. concat runs = input \<and>
          map seg_text (segmentText punct cfg input) = filter (passesFilter cfg) runs"
proof -
  have "closedRuns cfg init [] []" by (simp add: closedRuns_def init_def)
  from closedRuns_loop [OF this, of punct 0 input] obtain runs where
    r: "closedRuns cfg (loop punct cfg 0 input init) runs input" by auto
  let ?st = "loop punct cfg 0 input init"
  have "concat (runs @ [currentSegment ?st]) = input" using r by (simp add: closedRuns_def)
  moreover have "map seg_text (pushCurrent cfg ?st) = filter (passesFilter cfg) (runs @ [currentSegment ?st])"
    using r by (simp add: closedRuns_def pushCurrent_def)
  ultimately show ?thesis unfolding segmentText_def by blast
qed



lemma contextScript_pairStack [simp]: "contextScript (st\<lparr>pairStack := x\<rparr>) = contextScript st"
  by (simp add: contextScript_def)

lemma closingGlyph_eq:
  assumes "popMatching (pairStack st) oc = (matched, stack)"
  shows "closingGlyph cfg oc st =
    (let charScript = (if \<not> truthy matched then contextScript st else matched)
     in if truthy (currentScript st) \<and> currentScript st \<noteq> charScript
        then (charScript, st\<lparr>pairStack := stack, segments := pushCurrent cfg st,
                currentSegment := [], currentScript := charScript\<rparr>)
        else (charScript, st\<lparr>pairStack := stack\<rparr>))"
  using assms by (simp add: closingGlyph_def Let_def)

lemma scriptConsistent_Nil [simp]: "scriptConsistent punct cfg s []"
  by (simp add: scriptConsistent_def)

lemma scriptConsistent_None:
  "scriptConsistent punct cfg None chars \<Longrightarrow> scriptConsistent punct cfg s chars"
  by (auto simp: scriptConsistent_def)

lemma scriptConsistent_snoc:
  "scriptConsistent punct cfg s (chars @ [c]) \<longleftrightarrow>
     scriptConsistent punct cfg s chars \<and>
     (\<not> (preserveWhitespace cfg \<and> isWhitespaceOrPunctuation punct c) \<longrightarrow>
        s = Some (detectScript cfg [c]))"
  by (auto simp: scriptConsistent_def)

lemma consistent_pushCurrent:
  assumes "consistentState punct cfg st"
  shows "\<forall>seg\<in>set (pushCurrent cfg st). scriptConsistent punct cfg (seg_script seg) (seg_text seg)"
  using assms by (auto simp: consistentState_def pushCurrent_def)

lemma consistent_closingGlyph:
  assumes "consistentState punct cfg st" "closingGlyph cfg oc st = (cs, st1)"
  shows "consistentState punct cfg st1"
proof -
  obtain matched stack where pm: "popMatching (pairStack st) oc = (matched, stack)"
    by (cases "popMatching (pairStack st) oc")
  from assms(2) consistent_pushCurrent [OF assms(1)] assms(1) show ?thesis
    by (auto simp: closingGlyph_eq [OF pm] Let_def consistentState_def split: if_splits)
qed

lemma consistent_resolvePunctuation:
  assumes "consistentState punct cfg st" "resolvePunctuation cfg i c st = (cs, st1)"
  shows "consistentState punct cfg st1"
  using assms consistent_closingGlyph [OF assms(1)]
  by (auto simp: resolvePunctuation_def openingGlyph_def Let_def
        consistentState_def split: if_splits option.splits)

lemma consistent_punctuationStep:
  assumes "consistentState punct cfg st"
    "preserveWhitespace cfg \<and> isWhitespaceOrPunctuation punct c"
  shows "consistentState punct cfg (punctuationStep punct cfg i c rest st)"
proof -
  obtain cs st1 where r: "resolvePunctuation cfg i c st = (cs, st1)"
    by (cases "resolvePunctuation cfg i c st")
  have c1: "consistentState punct cfg st1"
    by (rule consistent_resolvePunctuation [OF assms(1) r])
  define st2 where "st2 = (if currentScript st1 = None \<and> truthy cs
                 then st1\<lparr>currentScript := cs\<rparr> else st1)"
  have c2: "consistentState punct cfg st2"
    using c1 scriptConsistent_None [of punct cfg "currentSegment st1" cs]
    by (auto simp: st2_def consistentState_def)
  define st3 where "st3 = st2\<lparr>currentSegment := currentSegment st2 @ [c]\<rparr>"
  have c3: "consistentState punct cfg st3"
    using c2 assms(2) by (simp add: st3_def consistentState_def scriptConsistent_snoc)
  have "punctuationStep punct cfg i c rest st = st3 \<or>
        punctuationStep punct cfg i c rest st =
          st3\<lparr>segments := pushCurrent cfg st3, currentSegment := [], currentScript := None\<rparr>"
    by (simp add: punctuationStep_def r Let_def st3_def st2_def)
  then show ?thesis
    using c3 consistent_pushCurrent [OF c3] by (auto simp: consistentState_def)
qed

lemma consistent_scriptStep:
  assumes "consistentState punct cfg st"
    "\<not> (preserveWhitespace cfg \<and> isWhitespaceOrPunctuation punct c)"
  shows "consistentState punct cfg (scriptStep cfg c st)"
proof -
  let ?st1 = "st\<lparr>lastNonWhitespaceScript := Some (detectScript cfg [c])\<rparr>"
  have c1: "consistentState punct cfg ?st1" using assms(1) by (simp add: consistentState_def)
  show ?thesis
    using c1 consistent_pushCurrent [OF c1] assms(2)
      scriptConsistent_None [of punct cfg "currentSegment st" "Some (detectScript cfg [c])"]
    by (auto simp: scriptStep_def Let_def consistentState_def scriptConsistent_snoc
          scriptConsistent_def)
qed

lemma consistent_step:
  assumes "consistentState punct cfg st"
  shows "consistentState punct cfg (step punct cfg i c rest st)"
  using consistent_punctuationStep [OF assms] consistent_scriptStep [OF assms]
  by (simp add: step_def)

lemma consistent_loop:
  assumes "consistentState punct cfg st"
  shows "consistentState punct cfg (loop punct cfg i input st)"
  using assms
proof (induction input arbitrary: st i)
  case Nil
  then show ?case by simp
next
  case (Cons c rest)
  from Cons.IH [OF consistent_step [OF Cons.prems]] show ?case by simp
qed

lemma segmentText_consistent:
  "\<forall>seg\<in>set (segmentText punct cfg input).
     scriptConsistent punct cfg (seg_script seg) (seg_text seg)"
proof -
  have "consistentState punct cfg init" by (simp add: consistentState_def init_def)
  from consistent_pushCurrent [OF consistent_loop [OF this]] show ?thesis
    by (simp add: segmentText_def)
qed

lemma glyphOverrideMap_default [simp]: "glyphOverrideMap DEFAULT_CONFIG = Map.empty"
  by (simp add: glyphOverrideMap_def DEFAULT_CONFIG_def)

lemma detectScript_no_override:
  assumes "glyphOverrideMap cfg ch = None"
  shows "detectScript cfg ch =
    (case scanRanges (codePointAt0 ch) scriptRanges of Some script \<Rightarrow> script | None \<Rightarrow> js ''latin'')"
  using assms by (simp add: detectScript_def truthy_def)














subsection \<open>Evaluation on the scenarios\<close>

lemma DEFAULT_CONFIG_fields [simp]:
  "preserveWhitespace DEFAULT_CONFIG" "minSegmentLength DEFAULT_CONFIG = 1"
  "glyphOverrides DEFAULT_CONFIG = []" "languageOverrides DEFAULT_CONFIG = Map.empty"
  by (simp_all add: DEFAULT_CONFIG_def)

lemma no_punctuation:
  "unat c = 0x24 \<Longrightarrow> \<not> unicodePunctuation c"
  "0x30 \<le> unat c \<Longrightarrow> unat c \<le> 0x39 \<Longrightarrow> \<not> unicodePunctuation c"
  "0x41 \<le> unat c \<Longrightarrow> unat c \<le> 0x5A \<Longrightarrow> \<not> unicodePunctuation c"
  "0x61 \<le> unat c \<Longrightarrow> unat c \<le> 0x7A \<Longrightarrow> \<not> unicodePunctuation c"
  "0x4E00 \<le> unat c \<Longrightarrow> unat c \<le> 0x9FFF \<Longrightarrow> \<not> unicodePunctuation c"
  "0xAC00 \<le> unat c \<Longrightarrow> unat c \<le> 0xD7A3 \<Longrightarrow> \<not> unicodePunctuation c"
  "0x0400 \<le> unat c \<Longrightarrow> unat c \<le> 0x04FF \<Longrightarrow> \<not> unicodePunctuation c"
  by (simp_all add: unicodePunctuation_def punctuationRanges_def)

lemma ascii_punctuation:
  "unicodePunctuation 0x28" "unicodePunctuation 0x29" "unicodePunctuation 0x3A"
  by (simp_all add: unicodePunctuation_def punctuationRanges_def)

lemma default_scripts:
  "unat c = 0x24 \<Longrightarrow> detectScript DEFAULT_CONFIG [c] = js ''latin''"
  "0x30 \<le> unat c \<Longrightarrow> unat c \<le> 0x39 \<Longrightarrow> detectScript DEFAULT_CONFIG [c] = js ''latin''"
  "0x41 \<le> unat c \<Longrightarrow> unat c \<le> 0x5A \<Longrightarrow> detectScript DEFAULT_CONFIG [c] = js ''latin''"
  "0x61 \<le> unat c \<Longrightarrow> unat c \<le> 0x7A \<Longrightarrow> detectScript DEFAULT_CONFIG [c] = js ''latin''"
  "0x4E00 \<le> unat c \<Longrightarrow> unat c \<le> 0x9FFF \<Longrightarrow> detectScript DEFAULT_CONFIG [c] = js ''chinese''"
  "0xAC00 \<le> unat c \<Longrightarrow> unat c \<le> 0xD7A3 \<Longrightarrow> detectScript DEFAULT_CONFIG [c] = js ''korean''"
  "0xD800 \<le> unat c \<Longrightarrow> unat c \<le> 0xDFFF \<Longrightarrow> detectScript DEFAULT_CONFIG [c] = js ''latin''"
  "0x0400 \<le> unat c \<Longrightarrow> unat c \<le> 0x04FF \<Longrightarrow> detectScript DEFAULT_CONFIG [c] = js ''cyrillic''"
  by (simp_all add: detectScript_no_override scriptRanges_def)

lemmas segmentText_eval =
  segmentText_def init_def step_def punctuationStep_def resolvePunctuation_def openingGlyph_def
  closingGlyph_def popMatching_def scriptStep_def pushCurrent_def passesFilter_def trim_def
  isWhitespaceOrPunctuation_def isWhiteSpace_def contextScript_def orElse_def truthy_def
  stringOfNull_def pairedPunctuation_def closingToOpening_def scriptToLang_def Let_def
  no_punctuation ascii_punctuation default_scripts

lemma scenario_units:
  "parenthesizedHangul = [0x28, 0xD55C, 0xAE00, 0x29]"
  "priceText = [0x70, 0x72, 0x69, 0x63, 0x65, 0x3A, 0x20, 0x24, 0x35, 0x20, 0x28,
                0xC624, 0xCC9C, 0xC6D0, 0x29]"
  "helloText = [0x48, 0x65, 0x6C, 0x6C, 0x6F, 0x20, 0xC548, 0xB155, 0xD558, 0xC138, 0xC694, 0x20,
                0x77, 0x6F, 0x72, 0x6C, 0x64]"
  "js ''('' = [0x28]" "js '')'' = [0x29]"
  "js ''price: $5 ('' = [0x70, 0x72, 0x69, 0x63, 0x65, 0x3A, 0x20, 0x24, 0x35, 0x20, 0x28]"
  "js ''Hello '' = [0x48, 0x65, 0x6C, 0x6C, 0x6F, 0x20]"
  "js ''world'' = [0x77, 0x6F, 0x72, 0x6C, 0x64]"
  "js '' '' = [0x20]" "js ''ab'' = [0x61, 0x62]"
  by (simp_all add: parenthesizedHangul_def priceText_def helloText_def js_def)

lemma segmentText_parenthesizedHangul:
  "segmentText unicodePunctuation DEFAULT_CONFIG parenthesizedHangul =
     [\<lparr>seg_text = js ''('', seg_script = Some (js ''latin''), seg_lang = Some (js ''en'')\<rparr>,
      \<lparr>seg_text = [0xD55C, 0xAE00], seg_script = Some (js ''korean''),
         seg_lang = Some (js ''ko'')\<rparr>,
      \<lparr>seg_text = js '')'', seg_script = Some (js ''latin''), seg_lang = Some (js ''en'')\<rparr>]"
  unfolding scenario_units by (simp add: segmentText_eval)

lemma segmentText_priceText:
  "segmentText unicodePunctuation DEFAULT_CONFIG priceText =
     [\<lparr>seg_text = js ''price: $5 ('', seg_script = Some (js ''latin''),
         seg_lang = Some (js ''en'')\<rparr>,
      \<lparr>seg_text = [0xC624, 0xCC9C, 0xC6D0], seg_script = Some (js ''korean''),
         seg_lang = Some (js ''ko'')\<rparr>,
      \<lparr>seg_text = js '')'', seg_script = Some (js ''latin''), seg_lang = Some (js ''en'')\<rparr>]"
  unfolding scenario_units by (simp add: segmentText_eval)


text \<open>
  A blank run inside a text: in \<open>a(X) y\<close> (\<open>X\<close> a Hangul syllable, \<open>y\<close> the Cyrillic
  letter U+0431) the closing parenthesis is force-closed, the space after it opens a run with
  the script korean, and the Cyrillic letter closes that run out while it is blank.
\<close>

lemma segmentText_inner_space:
  "segmentText unicodePunctuation DEFAULT_CONFIG [0x61, 0x28, 0xD55C, 0x29, 0x20, 0x0431] =
     [\<lparr>seg_text = [0x61, 0x28], seg_script = Some (js ''latin''), seg_lang = Some (js ''en'')\<rparr>,
      \<lparr>seg_text = [0xD55C], seg_script = Some (js ''korean''), seg_lang = Some (js ''ko'')\<rparr>,
      \<lparr>seg_text = [0x29], seg_script = Some (js ''latin''), seg_lang = Some (js ''en'')\<rparr>,
      \<lparr>seg_text = [0x0431], seg_script = Some (js ''cyrillic''),
         seg_lang = Some (js ''ru'')\<rparr>]"
  by (simp add: segmentText_eval)

subsection \<open>Runs and the filter\<close>




lemma run_in_middle:
  assumes "r \<in> set runs"
  shows "\<exists>a b. concat runs = a @ r @ b"
proof -
  from assms obtain xs ys where "runs = xs @ r # ys" by (auto dest: split_list)
  then have "concat runs = concat xs @ r @ concat ys" by simp
  then show ?thesis by blast
qed

lemma join_empty: "join [] xs = concat xs"
  by (induction "[] :: jsstring" xs rule: join.induct) simp_all

subsection \<open>Surrogates\<close>

lemma surrogate_range: "isSurrogate c \<longleftrightarrow> 0xD800 \<le> unat c \<and> unat c \<le> 0xDFFF"
  by (auto simp: isSurrogate_def isHighSurrogate_def isLowSurrogate_def)

lemma surrogate_not_whitespace:
  assumes "isSurrogate c"
  shows "\<not> isWhiteSpace c"
proof
  assume "isWhiteSpace c"
  then have "unat c < 0xD800 \<or> unat c = 0xFEFF"
    by (auto simp: isWhiteSpace_def)
  with assms show False by (auto simp: surrogate_range)
qed

lemma glyphOverrideMap_none: "glyphOverrides cfg = [] \<Longrightarrow> glyphOverrideMap cfg = Map.empty"
  by (simp add: glyphOverrideMap_def)

lemma surrogate_latin:
  assumes "isSurrogate c" "glyphOverrideMap cfg [c] = None"
  shows "detectScript cfg [c] = js ''latin''"
proof -
  from assms(1) have "0xD800 \<le> unat c" "unat c \<le> 0xDFFF" by (simp_all add: surrogate_range)
  then have "scanRanges (Some (unat c)) scriptRanges = None"
    by (simp add: scriptRanges_def)
  with assms(2) show ?thesis by (simp add: detectScript_no_override)
qed

lemma extensionB_chinese:
  assumes "0x20000 \<le> cp" "cp \<le> 0x2A6DF"
  shows "scanRanges (Some cp) scriptRanges = Some (js ''chinese'')"
  using assms by (simp add: scriptRanges_def)

lemma unicodePunctuation_surrogate:
  assumes "isSurrogate c"
  shows "\<not> unicodePunctuation c"
proof -
  from assms have "0xD800 \<le> unat c" "unat c \<le> 0xDFFF" by (simp_all add: surrogate_range)
  then show ?thesis
    by (simp add: unicodePunctuation_def punctuationRanges_def)
qed

subsection \<open>The range table\<close>

lemma inRanges_iff: "inRanges n rs \<longleftrightarrow> (\<exists>(start, end)\<in>set rs. start \<le> n \<and> n \<le> end)"
  by (induction n rs rule: inRanges.induct) auto

lemma scanRanges_find:
  "scanRanges (Some cp) table =
     map_option fst
       (find (\<lambda>(script, ranges). \<exists>(start, end)\<in>set ranges. start \<le> cp \<and> cp \<le> end) table)"
  by (induction table) (auto simp: inRanges_iff)

section \<open>The claims\<close>



text \<open>
  C2, as amended. \<open>detectScript\<close> is a total function. On a string with a code point it
  returns the script of the glyph override of the string when that script is a non-empty
  string; otherwise (no override, or an override with the empty string, which the test
  \<open>if (this.glyphOverrideMap[char])\<close> skips) the script of the first entry of the range
  table, in its order, one of whose ranges holds the code point; otherwise \<open>latin\<close>.
\<close>

theorem detectScript_lookup_order:
  assumes "codePointAt0 char = Some cp"
  shows "detectScript cfg char =
    (case glyphOverrideMap cfg char of
       Some script \<Rightarrow>
         if script \<noteq> [] then script
         else (case firstMatchingScript cp of Some s \<Rightarrow> s | None \<Rightarrow> js ''latin'')
     | None \<Rightarrow> (case firstMatchingScript cp of Some s \<Rightarrow> s | None \<Rightarrow> js ''latin''))"
  using assms
  by (simp add: detectScript_def truthy_def firstMatchingScript_def scanRanges_find
        split: option.split)

theorem detectScript_lookup_order_witness:
  "codePointAt0 [0xD55C] = Some 0xD55C \<and>
   detectScript (DEFAULT_CONFIG\<lparr>glyphOverrides := [([0xD55C], js ''latin'')]\<rparr>) [0xD55C] = js ''latin'' \<and>
   detectScript DEFAULT_CONFIG [0xD55C] = js ''korean''"
proof -
  have cp: "codePointAt0 [0xD55C] = Some 0xD55C" by simp
  have m: "glyphOverrideMap (DEFAULT_CONFIG\<lparr>glyphOverrides := [([0xD55C], js ''latin'')]\<rparr>) [0xD55C]
            = Some (js ''latin'')"
    by (simp add: glyphOverrideMap_def)
  have f: "firstMatchingScript 0xD55C = Some (js ''korean'')"
    by (simp add: firstMatchingScript_def scriptRanges_def)
  show ?thesis
    using detectScript_lookup_order [OF cp, of "DEFAULT_CONFIG\<lparr>glyphOverrides := [([0xD55C], js ''latin'')]\<rparr>"]
      detectScript_lookup_order [OF cp, of DEFAULT_CONFIG]
    by (simp add: m f)
qed

text \<open>
  C2 as stated fails: with the glyph override of U+AC00 configured as the empty string,
  \<open>detectScript\<close> does not return the override's script but goes on to the ranges.
\<close>

theorem detectScript_empty_override:
  "glyphOverrideMap (DEFAULT_CONFIG\<lparr>glyphOverrides := [([0xAC00], [])]\<rparr>) [0xAC00] = Some [] \<and>
   detectScript (DEFAULT_CONFIG\<lparr>glyphOverrides := [([0xAC00], [])]\<rparr>) [0xAC00] = js ''korean''"
  by (simp add: glyphOverrideMap_def detectScript_def truthy_def scriptRanges_def)

text \<open>
  C5. On the text \<open>Hello VWXYZ world\<close> (\<open>VWXYZ\<close> five Hangul syllables) the default
  configuration gives three segments: \<open>Hello \<close> with script latin, the Hangul syllables
  and the space after them with script korean, \<open>world\<close> with script latin.
\<close>

theorem hello_three_segments:
  "segmentText unicodePunctuation DEFAULT_CONFIG helloText =
     [\<lparr>seg_text = js ''Hello '', seg_script = Some (js ''latin''), seg_lang = Some (js ''en'')\<rparr>,
      \<lparr>seg_text = [0xC548, 0xB155, 0xD558, 0xC138, 0xC694] @ js '' '',
         seg_script = Some (js ''korean''), seg_lang = Some (js ''ko'')\<rparr>,
      \<lparr>seg_text = js ''world'', seg_script = Some (js ''latin''), seg_lang = Some (js ''en'')\<rparr>]"
  unfolding scenario_units by (simp add: segmentText_eval)

text \<open>
  C3, as amended. On the text \<open>(XY)\<close> (\<open>XY\<close> two Hangul syllables) the default
  configuration gives three segments: the opening parenthesis with script latin, the Hangul
  syllables with script korean, the closing parenthesis with script latin. The opening
  parenthesis takes the script of the context before it, which at the start of the text is
  the default \<open>latin\<close>, and the closing parenthesis takes the script of its partner.
\<close>

theorem parentheses_resolve_to_context:
  "segmentText unicodePunctuation DEFAULT_CONFIG parenthesizedHangul =
     [\<lparr>seg_text = js ''('', seg_script = Some (js ''latin''), seg_lang = Some (js ''en'')\<rparr>,
      \<lparr>seg_text = [0xD55C, 0xAE00], seg_script = Some (js ''korean''),
         seg_lang = Some (js ''ko'')\<rparr>,
      \<lparr>seg_text = js '')'', seg_script = Some (js ''latin''), seg_lang = Some (js ''en'')\<rparr>]"
  by (rule segmentText_parenthesizedHangul)

text \<open>
  C3 as stated fails: the segment that holds the opening parenthesis has script latin, not
  korean.
\<close>

theorem opening_parenthesis_is_latin:
  "hd (segmentText unicodePunctuation DEFAULT_CONFIG parenthesizedHangul) =
     \<lparr>seg_text = js ''('', seg_script = Some (js ''latin''), seg_lang = Some (js ''en'')\<rparr> \<and>
   0x28 \<in> set (js ''('') \<and> Some (js ''latin'') \<noteq> Some (js ''korean'')"
  unfolding segmentText_parenthesizedHangul by (simp add: scenario_units)

text \<open>
  C4, as amended. On the text \<open>price: $5 (XYZ)\<close> (\<open>XYZ\<close> three Hangul syllables) the
  default configuration gives three segments: \<open>price: $5 (\<close> with script latin, which
  holds the digit, the dollar sign and the opening parenthesis; the Hangul syllables alone
  with script korean; the closing parenthesis with script latin.
\<close>

theorem price_three_segments:
  "segmentText unicodePunctuation DEFAULT_CONFIG priceText =
     [\<lparr>seg_text = js ''price: $5 ('', seg_script = Some (js ''latin''),
         seg_lang = Some (js ''en'')\<rparr>,
      \<lparr>seg_text = [0xC624, 0xCC9C, 0xC6D0], seg_script = Some (js ''korean''),
         seg_lang = Some (js ''ko'')\<rparr>,
      \<lparr>seg_text = js '')'', seg_script = Some (js ''latin''), seg_lang = Some (js ''en'')\<rparr>]"
  by (rule segmentText_priceText)

text \<open>
  C4 as stated fails: no segment has the parenthesized Hangul, with both parentheses, as its
  text.
\<close>

theorem parenthesized_korean_not_one_segment:
  "js ''('' @ [0xC624, 0xCC9C, 0xC6D0] @ js '')'' \<notin>
     set (map seg_text (segmentText unicodePunctuation DEFAULT_CONFIG priceText))"
  unfolding segmentText_priceText by (simp add: scenario_units)

text \<open>
  C7. Every segment \<open>segmentText\<close> returns passes the emission filter, for every input,
  configuration and punctuation table: its trimmed text is not empty and is at least
  \<open>minSegmentLength\<close> long.
\<close>

theorem segments_pass_filter:
  "\<forall>seg\<in>set (segmentText punct cfg input).
     trim (seg_text seg) \<noteq> [] \<and> minSegmentLength cfg \<le> int (length (trim (seg_text seg)))"
proof
  fix seg
  assume "seg \<in> set (segmentText punct cfg input)"
  then have "seg_text seg \<in> set (map seg_text (segmentText punct cfg input))" by simp
  moreover from segmentText_runs [of input punct cfg] obtain runs where
    "map seg_text (segmentText punct cfg input) = filter (passesFilter cfg) runs" by blast
  ultimately have "passesFilter cfg (seg_text seg)" by simp
  then show "trim (seg_text seg) \<noteq> [] \<and>
      minSegmentLength cfg \<le> int (length (trim (seg_text seg)))"
    by (simp add: passesFilter_def)
qed

theorem segments_pass_filter_witness:
  "\<lparr>seg_text = js ''ab'', seg_script = Some (js ''latin''), seg_lang = Some (js ''en'')\<rparr>
      \<in> set (segmentText unicodePunctuation DEFAULT_CONFIG (js ''ab'')) \<and>
   trim (js ''ab'') \<noteq> [] \<and>
   minSegmentLength DEFAULT_CONFIG \<le> int (length (trim (js ''ab'')))"
proof -
  have e: "segmentText unicodePunctuation DEFAULT_CONFIG (js ''ab'') =
      [\<lparr>seg_text = js ''ab'', seg_script = Some (js ''latin''), seg_lang = Some (js ''en'')\<rparr>]"
    unfolding scenario_units by (simp add: segmentText_eval)
  show ?thesis
    using segments_pass_filter [of unicodePunctuation DEFAULT_CONFIG "js ''ab''"]
    by (simp add: e)
qed

text \<open>
  C8. \<open>segmentText\<close> returns no segment on the empty string, and none on an input whose
  trimmed length is below \<open>minSegmentLength\<close>. The model is a total function: no error.
\<close>

theorem short_input_no_segments:
  "segmentText punct cfg [] = [] \<and>
   (int (length (trim input)) < minSegmentLength cfg \<longrightarrow> segmentText punct cfg input = [])"
proof
  show "segmentText punct cfg [] = []"
    by (simp add: segmentText_def init_def pushCurrent_def passesFilter_def trim_def)
next
  show "int (length (trim input)) < minSegmentLength cfg \<longrightarrow> segmentText punct cfg input = []"
  proof
    assume short: "int (length (trim input)) < minSegmentLength cfg"
    from segmentText_runs [of input punct cfg] obtain runs where
      c: "concat runs = input" and
      m: "map seg_text (segmentText punct cfg input) = filter (passesFilter cfg) runs"
      by blast
    have "\<not> passesFilter cfg r" if "r \<in> set runs" for r
    proof -
      from run_in_middle [OF that] c obtain a b where "input = a @ r @ b" by auto
      then have "length (trim r) \<le> length (trim input)"
        using length_trim_middle [of r a b] by simp
      with short show ?thesis by (simp add: passesFilter_def)
    qed
    then have "filter (passesFilter cfg) runs = []" by (simp add: filter_empty_conv)
    with m show "segmentText punct cfg input = []" by simp
  qed
qed

theorem short_input_no_segments_witness:
  "int (length (trim (js ''ab''))) < minSegmentLength (DEFAULT_CONFIG\<lparr>minSegmentLength := 3\<rparr>) \<and>
   segmentText unicodePunctuation (DEFAULT_CONFIG\<lparr>minSegmentLength := 3\<rparr>) (js ''ab'') = []"
proof -
  have t: "trim (js ''ab'') = js ''ab''"
    unfolding scenario_units by (simp add: trim_def isWhiteSpace_def)
  have h: "int (length (trim (js ''ab''))) < minSegmentLength (DEFAULT_CONFIG\<lparr>minSegmentLength := 3\<rparr>)"
    unfolding t by (simp add: js_def)
  with short_input_no_segments [of unicodePunctuation "DEFAULT_CONFIG\<lparr>minSegmentLength := 3\<rparr>" "js ''ab''"]
  show ?thesis by blast
qed



text \<open>
  C9. \<open>wrapSegments\<close> gives, in the order of the segments, the raw text of a segment whose
  trimmed text is empty and, for any other segment, the span with the attributes \<open>lang\<close>
  and \<open>data-script\<close>, the attribute \<open>class\<close> when the class list is not empty, and the
  text; the values are put in as they are, nothing is escaped.
\<close>

theorem wrapSegments_markup:
  \<open>wrapSegments cfg segs =
     concat (map (\<lambda>segment.
       if trim (seg_text segment) = [] then seg_text segment
       else js ''<span lang="'' @ stringOfUndefined (seg_lang segment) @
            js ''" data-script="'' @ stringOfNull (seg_script segment) @ js ''"'' @
            (if cssClass cfg segment \<noteq> []
             then js '' class="'' @ cssClass cfg segment @ js ''"'' else []) @
            js ''>'' @ seg_text segment @ js ''</span>'') segs)\<close>
  by (simp add: wrapSegments_def join_empty renderSegment_def Let_def cong: map_cong if_cong)

theorem wrapSegments_markup_witness:
  \<open>wrapSegments DEFAULT_CONFIG
     [\<lparr>seg_text = js ''Hello '', seg_script = Some (js ''latin''), seg_lang = Some (js ''en'')\<rparr>,
      \<lparr>seg_text = js '' '', seg_script = None, seg_lang = None\<rparr>] =
   js ''<span lang="en" data-script="latin" class="ml-en">Hello </span> ''\<close>
proof -
  have t: "trim (js ''Hello '') \<noteq> []" "trim (js '' '') = []"
    unfolding scenario_units by (simp_all add: trim_def isWhiteSpace_def)
  have c: "cssClass DEFAULT_CONFIG
      \<lparr>seg_text = js ''Hello '', seg_script = Some (js ''latin''), seg_lang = Some (js ''en'')\<rparr>
      = js ''ml-en''"
    by (simp add: cssClass_def DEFAULT_CONFIG_def orElse_def truthy_def stringOfNull_def
          scriptToShortClass_def)
  show ?thesis
    unfolding wrapSegments_markup [of DEFAULT_CONFIG]
    by (simp add: t c stringOfUndefined_def stringOfNull_def) (simp add: js_def)
qed

text \<open>
  C10. With no glyph overrides, and a punctuation table without surrogates (they have the
  category Cs), a surrogate pair of a code point of CJK Extension B is \<open>chinese\<close> for
  \<open>detectScript\<close> as one character, but each of its code units alone is \<open>latin\<close>, and every
  segment of \<open>segmentText\<close> that holds one of the two code units has the script latin.
\<close>

theorem surrogate_pair_not_chinese:
  assumes "glyphOverrides cfg = []" and "\<forall>c. isSurrogate c \<longrightarrow> \<not> punct c"
    and "isHighSurrogate hi" and "isLowSurrogate lo"
    and "codePointAt0 [hi, lo] = Some cp" and "0x20000 \<le> cp" and "cp \<le> 0x2A6DF"
  shows "detectScript cfg [hi, lo] = js ''chinese'' \<and>
         detectScript cfg [hi] = js ''latin'' \<and> detectScript cfg [lo] = js ''latin'' \<and>
         (\<forall>seg\<in>set (segmentText punct cfg input).
            hi \<in> set (seg_text seg) \<or> lo \<in> set (seg_text seg) \<longrightarrow>
            seg_script seg = Some (js ''latin''))"
proof -
  have none: "glyphOverrideMap cfg x = None" for x
    using assms(1) by (simp add: glyphOverrideMap_none)
  have sur: "isSurrogate hi" "isSurrogate lo"
    using assms(3,4) by (simp_all add: isSurrogate_def)
  have latin: "detectScript cfg [c] = js ''latin''" if "isSurrogate c" for c
    using that none by (rule surrogate_latin)
  have pair: "detectScript cfg [hi, lo] = js ''chinese''"
    using extensionB_chinese [OF assms(6,7)] assms(5) none [of "[hi, lo]"]
    by (simp add: detectScript_no_override del: codePointAt0.simps)
  have segs: "seg_script seg = Some (js ''latin'')"
    if s: "seg \<in> set (segmentText punct cfg input)" and c: "c \<in> set (seg_text seg)"
      and i: "isSurrogate c" for seg c
  proof -
    from i assms(2) surrogate_not_whitespace
    have "\<not> isWhitespaceOrPunctuation punct c"
      by (simp add: isWhitespaceOrPunctuation_def)
    with segmentText_consistent [of punct cfg input] s c
    have "seg_script seg = Some (detectScript cfg [c])"
      by (auto simp: scriptConsistent_def)
    with latin [OF i] show ?thesis by simp
  qed
  from pair latin [OF sur(1)] latin [OF sur(2)] segs sur show ?thesis by blast
qed

theorem surrogate_pair_not_chinese_witness:
  "detectScript DEFAULT_CONFIG [0xD840, 0xDC00] = js ''chinese'' \<and>
   detectScript DEFAULT_CONFIG [0xD840] = js ''latin'' \<and>
   detectScript DEFAULT_CONFIG [0xDC00] = js ''latin'' \<and>
   \<lparr>seg_text = [0xD840, 0xDC00], seg_script = Some (js ''latin''), seg_lang = Some (js ''en'')\<rparr>
      \<in> set (segmentText unicodePunctuation DEFAULT_CONFIG [0x4E2D, 0xD840, 0xDC00]) \<and>
   seg_script \<lparr>seg_text = [0xD840, 0xDC00], seg_script = Some (js ''latin''),
      seg_lang = Some (js ''en'')\<rparr> = Some (js ''latin'')"
proof -
  have h1: "glyphOverrides DEFAULT_CONFIG = []" by simp
  have h2: "\<forall>c. isSurrogate c \<longrightarrow> \<not> unicodePunctuation c"
    by (simp add: unicodePunctuation_surrogate)
  have h3: "isHighSurrogate 0xD840" by (simp add: isHighSurrogate_def)
  have h4: "isLowSurrogate 0xDC00" by (simp add: isLowSurrogate_def)
  have h5: "codePointAt0 [0xD840, 0xDC00] = Some 0x20000"
    by (simp add: isHighSurrogate_def isLowSurrogate_def)
  have p: "\<not> unicodePunctuation 0xD840" "\<not> unicodePunctuation 0xDC00"
    using h2 h3 h4 by (simp_all add: isSurrogate_def)
  have e: "segmentText unicodePunctuation DEFAULT_CONFIG [0x4E2D, 0xD840, 0xDC00] =
      [\<lparr>seg_text = [0x4E2D], seg_script = Some (js ''chinese''), seg_lang = Some (js ''zh'')\<rparr>,
       \<lparr>seg_text = [0xD840, 0xDC00], seg_script = Some (js ''latin''),
          seg_lang = Some (js ''en'')\<rparr>]"
    by (simp add: segmentText_eval p)
  from surrogate_pair_not_chinese [OF h1 h2 h3 h4 h5, of "[0x4E2D, 0xD840, 0xDC00]"]
  show ?thesis by (simp add: e)
qed

end
